theory Spec2Isabelle
  imports Main "HOL-Library.Multiset"
begin

text \<open>
  \<^verbatim>\<open>static/js/main.js\<close> is glue over operations of the browser: the \<^verbatim>\<open>confirm\<close> dialog,
  \<^verbatim>\<open>Date\<close> and its French formatting, the document tree and its click events. The
  functions of the program are embedded as they are written. The operations of the browser
  are not part of the program: each is modelled after its standard (ECMA-262 for values,
  dates and parsing, ECMA-402 for formatting, the DOM standard for the tree and events),
  and what a standard leaves to the implementation is a parameter.
\<close>

section \<open>JavaScript values and the dialog primitive\<close>

text \<open>
  The utility functions of \<^verbatim>\<open>static/js/main.js\<close> take arguments that are a string or are
  absent. An absent argument is \<^verbatim>\<open>undefined\<close>; \<^verbatim>\<open>null\<close> is kept as the other empty value
  of the language. Strings are byte lists: a character outside ASCII is the bytes of its
  UTF-8 encoding, as it stands in the source file.
\<close>

datatype jsval = Undefined | Null | Str string

text \<open>The language's conversions, on these values.\<close>

fun ToBoolean :: "jsval \<Rightarrow> bool" where
  "ToBoolean Undefined = False"
| "ToBoolean Null = False"
| "ToBoolean (Str s) = (s \<noteq> [])"

fun ToString :: "jsval \<Rightarrow> string" where
  "ToString Undefined = ''undefined''"
| "ToString Null = ''null''"
| "ToString (Str s) = s"

text \<open>\<^verbatim>\<open>a || b\<close>: the left operand when it is truthy, the right one otherwise.\<close>

definition js_or :: "jsval \<Rightarrow> jsval \<Rightarrow> jsval" where
  "js_or a b = (if ToBoolean a then a else b)"

text \<open>
  The window: the person in front of it, who answers a dialog showing a given text with
  OK (\<open>True\<close>) or Cancel (\<open>False\<close>), and the texts of the dialogs shown so far, oldest
  first. \<^verbatim>\<open>confirm(v)\<close> shows the text of \<open>v\<close> and returns the answer; it is the only
  operation that touches the window.
\<close>

record window =
  user :: "string \<Rightarrow> bool"
  dialogs :: "string list"

definition confirm :: "jsval \<Rightarrow> window \<Rightarrow> bool \<times> window" where
  "confirm v w = (user w (ToString v), w\<lparr>dialogs := dialogs w @ [ToString v]\<rparr>)"

section \<open>Utilities of static/js/main.js\<close>

text \<open>
  The default confirmation text of \<^verbatim>\<open>confirmDelete\<close>, a French question ending in
  \<^verbatim>\<open>supprimer cet ... ?\<close>; its four accented letters are two bytes each.
\<close>

definition default_message :: string where
  "default_message =
     [CHR 0xC3, CHR 0x8A] @ ''tes-vous s'' @ [CHR 0xC3, CHR 0xBB] @
     ''r de vouloir supprimer cet '' @ [CHR 0xC3, CHR 0xA9] @ ''l'' @
     [CHR 0xC3, CHR 0xA9] @ ''ment ?''"

text \<open>\<^verbatim>\<open>function confirmDelete(message) { return confirm(message || "...") }\<close>\<close>

definition confirmDelete :: "jsval \<Rightarrow> window \<Rightarrow> bool \<times> window" where
  "confirmDelete message w = confirm (js_or message (Str default_message)) w"

text \<open>\<^verbatim>\<open>function checkAccess(action) { return true }\<close>: no call, no state.\<close>

definition checkAccess :: "jsval \<Rightarrow> bool" where
  "checkAccess action = True"

subsection \<open>The second copy of the utilities (the file without the page wiring)\<close>

definition confirmDelete_part000 :: "jsval \<Rightarrow> window \<Rightarrow> bool \<times> window" where
  "confirmDelete_part000 message w = confirm (js_or message (Str default_message)) w"

definition checkAccess_part000 :: "jsval \<Rightarrow> bool" where
  "checkAccess_part000 action = True"

section \<open>Dates: the host's time values\<close>

text \<open>
  A \<^verbatim>\<open>Date\<close> object holds a time value: milliseconds since 1970-01-01T00:00:00Z, or NaN
  (\<open>None\<close>) for an invalid date. The functions below are the day and time arithmetic of
  the language standard (ECMA-262, "Time Values and Time Range" onwards), on \<open>int\<close>, whose
  \<open>div\<close> and \<open>mod\<close> are the standard's floor and modulo.
\<close>

type_synonym timevalue = "int option"

definition msPerDay :: int where "msPerDay = 86400000"
definition msPerHour :: int where "msPerHour = 3600000"
definition msPerMinute :: int where "msPerMinute = 60000"
definition msPerSecond :: int where "msPerSecond = 1000"

definition Day :: "int \<Rightarrow> int" where
  "Day t = t div msPerDay"

definition DaysInYear :: "int \<Rightarrow> int" where
  "DaysInYear y =
     (if y mod 4 \<noteq> 0 then 365 else if y mod 100 \<noteq> 0 then 366
      else if y mod 400 \<noteq> 0 then 365 else 366)"

definition DayFromYear :: "int \<Rightarrow> int" where
  "DayFromYear y =
     365 * (y - 1970) + (y - 1969) div 4 - (y - 1901) div 100 + (y - 1601) div 400"

text \<open>
  The year of a day number: the largest \<open>y\<close> with \<open>DayFromYear y \<le> d\<close>. The estimate from
  the mean year length is off by one at most, so the three candidates are tested.
\<close>

definition YearFromDay :: "int \<Rightarrow> int" where
  "YearFromDay d =
     (let y = 1970 + (d * 400) div 146097
      in if DayFromYear (y + 1) \<le> d then y + 1
         else if DayFromYear y \<le> d then y else y - 1)"

definition YearFromTime :: "int \<Rightarrow> int" where
  "YearFromTime t = YearFromDay (Day t)"

definition InLeapYear :: "int \<Rightarrow> int" where
  "InLeapYear t = (if DaysInYear (YearFromTime t) = 366 then 1 else 0)"

definition DayWithinYear :: "int \<Rightarrow> int" where
  "DayWithinYear t = Day t - DayFromYear (YearFromTime t)"

text \<open>The first day (within the year) of each month 0..11, and of the next year.\<close>

definition month_start :: "int \<Rightarrow> nat \<Rightarrow> int" where
  "month_start leap m =
     (if m = 0 then 0 else if m = 1 then 31 else if m = 2 then 59 + leap
      else if m = 3 then 90 + leap else if m = 4 then 120 + leap
      else if m = 5 then 151 + leap else if m = 6 then 181 + leap
      else if m = 7 then 212 + leap else if m = 8 then 243 + leap
      else if m = 9 then 273 + leap else if m = 10 then 304 + leap
      else if m = 11 then 334 + leap else 365 + leap)"

definition MonthFromTime :: "int \<Rightarrow> nat" where
  "MonthFromTime t =
     (let d = DayWithinYear t; l = InLeapYear t
      in if d < 31 then 0 else if d < 59 + l then 1 else if d < 90 + l then 2
         else if d < 120 + l then 3 else if d < 151 + l then 4
         else if d < 181 + l then 5 else if d < 212 + l then 6
         else if d < 243 + l then 7 else if d < 273 + l then 8
         else if d < 304 + l then 9 else if d < 334 + l then 10 else 11)"

definition DateFromTime :: "int \<Rightarrow> int" where
  "DateFromTime t = DayWithinYear t - month_start (InLeapYear t) (MonthFromTime t) + 1"

definition HourFromTime :: "int \<Rightarrow> nat" where
  "HourFromTime t = nat ((t div msPerHour) mod 24)"

definition MinFromTime :: "int \<Rightarrow> nat" where
  "MinFromTime t = nat ((t div msPerMinute) mod 60)"

definition MakeTime :: "int \<Rightarrow> int \<Rightarrow> int \<Rightarrow> int \<Rightarrow> int" where
  "MakeTime hour minute sec ms =
     hour * msPerHour + minute * msPerMinute + sec * msPerSecond + ms"

text \<open>\<open>MakeDay\<close> for a month index 0..11 and a day of the month counted from 1.\<close>

definition MakeDay :: "int \<Rightarrow> nat \<Rightarrow> int \<Rightarrow> int" where
  "MakeDay year month date =
     DayFromYear year + month_start (if DaysInYear year = 366 then 1 else 0) month + date - 1"

definition MakeDate :: "int \<Rightarrow> int \<Rightarrow> int" where
  "MakeDate day time = day * msPerDay + time"

section \<open>Dates: parsing\<close>

text \<open>
  \<^verbatim>\<open>Date.parse\<close> recognises the standard's own date-time format, a profile of ISO 8601:
  \<^verbatim>\<open>YYYY\<close>, \<^verbatim>\<open>YYYY-MM\<close> or \<^verbatim>\<open>YYYY-MM-DD\<close>, then optionally \<^verbatim>\<open>T\<close> with \<^verbatim>\<open>HH:mm\<close>,
  \<^verbatim>\<open>HH:mm:ss\<close> or \<^verbatim>\<open>HH:mm:ss.sss\<close> and an optional zone \<^verbatim>\<open>Z\<close>, \<^verbatim>\<open>+HH:mm\<close> or \<^verbatim>\<open>-HH:mm\<close>.
  A date alone is read as UTC, a date and time with no zone as local time. The model reads
  the year on four digits or, expanded, as a sign and six digits (but not \<^verbatim>\<open>-000000\<close>),
  months 01-12, days that exist in the month, hours 00-23 and the midnight \<^verbatim>\<open>24:00:00\<close> that
  ends a day, minutes and seconds 00-59. Every other string goes to the engine's own
  heuristics, which the standard leaves open and which are a parameter of the host here.
\<close>

definition is_digit :: "char \<Rightarrow> bool" where
  "is_digit c = (48 \<le> (of_char c :: nat) \<and> (of_char c :: nat) \<le> 57)"

definition digit_value :: "char \<Rightarrow> nat" where
  "digit_value c = of_char c - 48"

text \<open>Exactly \<open>k\<close> decimal digits at the head of the string: their value and the rest.\<close>

definition read_digits :: "nat \<Rightarrow> string \<Rightarrow> (nat \<times> string) option" where
  "read_digits k s =
     (if k \<le> length s \<and> list_all is_digit (take k s)
      then Some (foldl (\<lambda>a c. 10 * a + digit_value c) 0 (take k s), drop k s)
      else None)"

definition expect :: "char \<Rightarrow> string \<Rightarrow> string option" where
  "expect c s = (case s of [] \<Rightarrow> None | x # r \<Rightarrow> if x = c then Some r else None)"

datatype zone = LocalZone | UtcZone | OffsetZone int

record iso_fields =
  iso_year :: int
  iso_month :: nat
  iso_day :: nat
  iso_hour :: nat
  iso_minute :: nat
  iso_second :: nat
  iso_ms :: nat
  iso_zone :: zone

definition parse_year :: "string \<Rightarrow> (int \<times> string) option" where
  "parse_year s =
     (case s of [] \<Rightarrow> None
      | c # r \<Rightarrow>
        if c = CHR ''+'' \<or> c = CHR ''-'' then
          (case read_digits 6 r of None \<Rightarrow> None
           | Some (y, r1) \<Rightarrow>
             if c = CHR ''-'' then (if y = 0 then None else Some (- int y, r1))
             else Some (int y, r1))
        else (case read_digits 4 s of None \<Rightarrow> None | Some (y, r1) \<Rightarrow> Some (int y, r1)))"

definition parse_date :: "string \<Rightarrow> ((int \<times> nat \<times> nat) \<times> string) option" where
  "parse_date s =
     (case parse_year s of None \<Rightarrow> None
      | Some (y, r1) \<Rightarrow>
        (case expect CHR ''-'' r1 of None \<Rightarrow> Some ((y, 1, 1), r1)
         | Some r2 \<Rightarrow>
           (case read_digits 2 r2 of None \<Rightarrow> None
            | Some (m, r3) \<Rightarrow>
              (case expect CHR ''-'' r3 of None \<Rightarrow> Some ((y, m, 1), r3)
               | Some r4 \<Rightarrow>
                 (case read_digits 2 r4 of None \<Rightarrow> None
                  | Some (d, r5) \<Rightarrow> Some ((y, m, d), r5))))))"

definition parse_time :: "string \<Rightarrow> ((nat \<times> nat \<times> nat \<times> nat) \<times> string) option" where
  "parse_time s =
     (case read_digits 2 s of None \<Rightarrow> None
      | Some (hh, r1) \<Rightarrow>
        (case expect CHR '':'' r1 of None \<Rightarrow> None
         | Some r2 \<Rightarrow>
           (case read_digits 2 r2 of None \<Rightarrow> None
            | Some (mi, r3) \<Rightarrow>
              (case expect CHR '':'' r3 of None \<Rightarrow> Some ((hh, mi, 0, 0), r3)
               | Some r4 \<Rightarrow>
                 (case read_digits 2 r4 of None \<Rightarrow> None
                  | Some (ss, r5) \<Rightarrow>
                    (case expect CHR ''.'' r5 of None \<Rightarrow> Some ((hh, mi, ss, 0), r5)
                     | Some r6 \<Rightarrow>
                       (case read_digits 3 r6 of None \<Rightarrow> None
                        | Some (ms, r7) \<Rightarrow> Some ((hh, mi, ss, ms), r7))))))))"

text \<open>The zone is the whole rest of the string; an offset is in minutes east of UTC.\<close>

definition parse_zone :: "string \<Rightarrow> zone option" where
  "parse_zone s =
     (case s of [] \<Rightarrow> Some LocalZone
      | c # r \<Rightarrow>
        if c = CHR ''Z'' then (if r = [] then Some UtcZone else None)
        else if c = CHR ''+'' \<or> c = CHR ''-'' then
          (case read_digits 2 r of None \<Rightarrow> None
           | Some (hh, r1) \<Rightarrow>
             (case expect CHR '':'' r1 of None \<Rightarrow> None
              | Some r2 \<Rightarrow>
                (case read_digits 2 r2 of None \<Rightarrow> None
                 | Some (mi, r3) \<Rightarrow>
                   if r3 = [] \<and> hh \<le> 23 \<and> mi \<le> 59
                   then Some (OffsetZone ((if c = CHR ''-'' then - 1 else 1) * int (60 * hh + mi)))
                   else None)))
        else None)"

definition days_in_month :: "int \<Rightarrow> nat \<Rightarrow> nat" where
  "days_in_month y m =
     (let leap = (if DaysInYear y = 366 then 1 else 0)
      in nat (month_start leap m - month_start leap (m - 1)))"

definition iso_parse :: "string \<Rightarrow> iso_fields option" where
  "iso_parse s =
     (case parse_date s of None \<Rightarrow> None
      | Some ((y, m, d), r) \<Rightarrow>
        if \<not> (1 \<le> m \<and> m \<le> 12 \<and> 1 \<le> d \<and> d \<le> days_in_month y m) then None
        else if r = [] then
          Some \<lparr>iso_year = y, iso_month = m, iso_day = d, iso_hour = 0, iso_minute = 0,
                iso_second = 0, iso_ms = 0, iso_zone = UtcZone\<rparr>
        else
          (case expect CHR ''T'' r of None \<Rightarrow> None
           | Some r1 \<Rightarrow>
             (case parse_time r1 of None \<Rightarrow> None
              | Some ((hh, mi, ss, ms), r2) \<Rightarrow>
                if \<not> ((hh \<le> 23 \<and> mi \<le> 59 \<and> ss \<le> 59) \<or>
                        (hh = 24 \<and> mi = 0 \<and> ss = 0 \<and> ms = 0)) then None
                else
                  (case parse_zone r2 of None \<Rightarrow> None
                   | Some z \<Rightarrow>
                     Some \<lparr>iso_year = y, iso_month = m, iso_day = d, iso_hour = hh,
                           iso_minute = mi, iso_second = ss, iso_ms = ms, iso_zone = z\<rparr>))))"

section \<open>Dates: the host\<close>

datatype error = RangeError | TypeError

text \<open>
  The options object of \<^verbatim>\<open>toLocaleDateString\<close>: the five properties the program sets, each
  absent or a string.
\<close>

record options =
  opt_year :: "string option"
  opt_month :: "string option"
  opt_day :: "string option"
  opt_hour :: "string option"
  opt_minute :: "string option"

text \<open>
  What the model leaves to the host: the parser's heuristics for strings outside the
  standard format; the offset of local time from UTC in milliseconds (\<open>LocalTZA t True\<close> at
  a UTC time, \<open>LocalTZA t False\<close> at a local time); the text that the French locale data
  puts between a date and a time; and the formatter for every locale and option set other
  than the one modelled below.
\<close>

record host =
  fallback_parse :: "string \<Rightarrow> int option"
  LocalTZA :: "int \<Rightarrow> bool \<Rightarrow> int"
  datetime_sep :: string
  other_formats :: "int \<Rightarrow> string \<Rightarrow> options \<Rightarrow> error + string"

definition LocalTime :: "host \<Rightarrow> int \<Rightarrow> int" where
  "LocalTime h t = t + LocalTZA h t True"

definition UTC :: "host \<Rightarrow> int \<Rightarrow> int" where
  "UTC h t = t - LocalTZA h t False"

text \<open>The date and time as they are written in the string, read as a time value.\<close>

definition written_time :: "iso_fields \<Rightarrow> int" where
  "written_time f =
     MakeDate (MakeDay (iso_year f) (iso_month f - 1) (int (iso_day f)))
       (MakeTime (int (iso_hour f)) (int (iso_minute f)) (int (iso_second f)) (int (iso_ms f)))"

definition time_of_iso :: "host \<Rightarrow> iso_fields \<Rightarrow> int" where
  "time_of_iso h f =
     (let t = written_time f
      in case iso_zone f of
           UtcZone \<Rightarrow> t
         | OffsetZone off \<Rightarrow> t - off * msPerMinute
         | LocalZone \<Rightarrow> UTC h t)"

text \<open>
  \<open>TimeClip\<close>: a \<^verbatim>\<open>Date\<close> holds instants up to 100,000,000 days on either side of the
  epoch; anything further is NaN.
\<close>

definition TimeClip :: "int \<Rightarrow> timevalue" where
  "TimeClip t = (if \<bar>t\<bar> \<le> 8640000000000000 then Some t else None)"

text \<open>
  \<^verbatim>\<open>Date.parse\<close>. The empty string holds no date and is NaN in every engine; the standard
  requires NaN for a string that is not recognised.
\<close>

definition Date_parse :: "host \<Rightarrow> string \<Rightarrow> timevalue" where
  "Date_parse h s =
     (if s = [] then None
      else case iso_parse s of
             Some f \<Rightarrow> TimeClip (time_of_iso h f)
           | None \<Rightarrow> (case fallback_parse h s of None \<Rightarrow> None | Some t \<Rightarrow> TimeClip t))"

text \<open>
  \<^verbatim>\<open>new Date(v)\<close> with one argument: a string is parsed, anything else is converted to a
  number, which is NaN for \<^verbatim>\<open>undefined\<close> and 0 for \<^verbatim>\<open>null\<close>.
\<close>

fun new_Date :: "host \<Rightarrow> jsval \<Rightarrow> timevalue" where
  "new_Date h (Str s) = Date_parse h s"
| "new_Date h Undefined = None"
| "new_Date h Null = TimeClip 0"

section \<open>Dates: French formatting\<close>

definition digit_char :: "nat \<Rightarrow> char" where
  "digit_char n = char_of (48 + n mod 10)"

fun show_nat :: "nat \<Rightarrow> string" where
  "show_nat n = (if n < 10 then [digit_char n] else show_nat (n div 10) @ [digit_char n])"

declare show_nat.simps [simp del]

text \<open>
  The year as the locale prints it: the year of the era, without the era. Year 0 of the
  time arithmetic is year 1 before the common era, year -1 is year 2, and so on.
\<close>

definition year_of_era :: "int \<Rightarrow> nat" where
  "year_of_era y = (if y \<le> 0 then nat (1 - y) else nat y)"

definition two_digit :: "nat \<Rightarrow> string" where
  "two_digit n = [digit_char (n div 10), digit_char n]"

text \<open>The full month names of the French locale data, January first.\<close>

definition month_long :: "string list" where
  "month_long =
     [''janvier'', ''f'' @ [CHR 0xC3, CHR 0xA9] @ ''vrier'', ''mars'', ''avril'', ''mai'',
      ''juin'', ''juillet'', ''ao'' @ [CHR 0xC3, CHR 0xBB] @ ''t'', ''septembre'',
      ''octobre'', ''novembre'', ''d'' @ [CHR 0xC3, CHR 0xA9] @ ''cembre'']"

text \<open>The legal values of each option; any other value is a \<^verbatim>\<open>RangeError\<close>.\<close>

definition allowed :: "string list \<Rightarrow> string option \<Rightarrow> bool" where
  "allowed vs x = (case x of None \<Rightarrow> True | Some v \<Rightarrow> v \<in> set vs)"

definition valid_options :: "options \<Rightarrow> bool" where
  "valid_options opts =
     (allowed [''2-digit'', ''numeric''] (opt_year opts) \<and>
      allowed [''2-digit'', ''numeric'', ''narrow'', ''short'', ''long''] (opt_month opts) \<and>
      allowed [''2-digit'', ''numeric''] (opt_day opts) \<and>
      allowed [''2-digit'', ''numeric''] (opt_hour opts) \<and>
      allowed [''2-digit'', ''numeric''] (opt_minute opts))"

text \<open>
  The option set the model formats itself: numeric day and year, the month in full, hour
  and minute on two digits. In French that is day, month name, year, the separator, and
  the time on the 24-hour clock (\<^verbatim>\<open>5 mars 2024\<close>, the separator, \<^verbatim>\<open>14:30\<close>).
\<close>

definition long_date_with_time :: options where
  "long_date_with_time =
     \<lparr>opt_year = Some ''numeric'', opt_month = Some ''long'', opt_day = Some ''numeric'',
      opt_hour = Some ''2-digit'', opt_minute = Some ''2-digit''\<rparr>"

definition fr_long_date_with_time :: "host \<Rightarrow> int \<Rightarrow> string" where
  "fr_long_date_with_time h lt =
     show_nat (nat (DateFromTime lt)) @ '' '' @ month_long ! MonthFromTime lt @ '' '' @
     show_nat (year_of_era (YearFromTime lt)) @ datetime_sep h @
     two_digit (HourFromTime lt) @ '':'' @ two_digit (MinFromTime lt)"

text \<open>
  \<^verbatim>\<open>date.toLocaleDateString(locale, options)\<close>: an invalid date renders as the fixed text
  before the options are looked at; then the options are validated; then the local time
  is formatted.
\<close>

definition toLocaleDateString :: "host \<Rightarrow> timevalue \<Rightarrow> string \<Rightarrow> options \<Rightarrow> error + string" where
  "toLocaleDateString h tv locale opts =
     (case tv of
        None \<Rightarrow> Inr ''Invalid Date''
      | Some t \<Rightarrow>
          if \<not> valid_options opts then Inl RangeError
          else if locale = ''fr-FR'' \<and> opts = long_date_with_time
          then Inr (fr_long_date_with_time h (LocalTime h t))
          else other_formats h t locale opts)"

section \<open>formatDate, in its two versions\<close>

text \<open>
  \<^verbatim>\<open>static/js/main.js\<close>:
  \<^verbatim>\<open>if (!dateString) return ""; const date = new Date(dateString);
  return date.toLocaleDateString("fr-FR", {year: "numeric", month: "long", day: "numeric",
  hour: "2-digit", minute: "2-digit"});\<close>
\<close>

definition formatDate :: "host \<Rightarrow> jsval \<Rightarrow> error + string" where
  "formatDate h dateString =
     (if \<not> ToBoolean dateString then Inr []
      else toLocaleDateString h (new_Date h dateString) ''fr-FR''
             \<lparr>opt_year = Some ''numeric'', opt_month = Some ''long'',
              opt_day = Some ''numeric'', opt_hour = Some ''2-digit'',
              opt_minute = Some ''2-digit''\<rparr>)"

text \<open>The other file: the same body without the first line.\<close>

definition formatDate_part000 :: "host \<Rightarrow> jsval \<Rightarrow> error + string" where
  "formatDate_part000 h dateString =
     toLocaleDateString h (new_Date h dateString) ''fr-FR''
       \<lparr>opt_year = Some ''numeric'', opt_month = Some ''long'',
        opt_day = Some ''numeric'', opt_hour = Some ''2-digit'',
        opt_minute = Some ''2-digit''\<rparr>"

text \<open>
  A host for the examples: the UTC time zone, a parser that knows the standard format
  only, the separator of the current French locale data (a space, the word for "at", a
  space), and no other locale.
\<close>

definition example_host :: host where
  "example_host =
     \<lparr>fallback_parse = (\<lambda>s. None), LocalTZA = (\<lambda>t u. 0),
      datetime_sep = '' '' @ [CHR 0xC3, CHR 0xA0] @ '' '',
      other_formats = (\<lambda>t l opts. Inl RangeError)\<rparr>"

text \<open>Two windows for the examples: a person who accepts, a person who declines.\<close>

definition accepting_window :: window where
  "accepting_window = \<lparr>user = (\<lambda>text. True), dialogs = []\<rparr>"

definition declining_window :: window where
  "declining_window = \<lparr>user = (\<lambda>text. False), dialogs = []\<rparr>"

section \<open>The page\<close>

text \<open>
  Elements are objects: the program keeps references to them (\<^verbatim>\<open>sidebar\<close>, \<^verbatim>\<open>b\<close>) that stay
  valid while the tree changes. An element is named by a reference; the shape of the page
  is a forest of references; what an element carries (its \<^verbatim>\<open>id\<close> and its class list) is
  looked up by reference. Trees that were removed from the page are kept: the listeners
  can still reach their elements. A document is in quirks mode or not (a page without a
  doctype is); the mode decides how class selectors compare names.
\<close>

type_synonym node = nat

datatype elem = Elem (ref: node) (childNodes: "elem list")

record attrs =
  attr_id :: string
  classList :: "string list"

record document =
  page :: "elem list"
  detached :: "elem list"
  attributes :: "node \<Rightarrow> attrs"
  quirks :: bool

text \<open>The elements of a tree and of a forest, in document order.\<close>

fun nodes :: "elem \<Rightarrow> node list" and nodes_list :: "elem list \<Rightarrow> node list" where
  "nodes (Elem n cs) = n # nodes_list cs"
| "nodes_list [] = []"
| "nodes_list (e # es) = nodes e @ nodes_list es"

text \<open>The way up from an element: the element itself, its parent, and so on to the root.\<close>

fun chain :: "node \<Rightarrow> elem \<Rightarrow> node list option"
  and chain_list :: "node \<Rightarrow> elem list \<Rightarrow> node list option" where
  "chain x (Elem n cs) =
     (if n = x then Some [n] else map_option (\<lambda>p. p @ [n]) (chain_list x cs))"
| "chain_list x [] = None"
| "chain_list x (e # es) = (case chain x e of Some p \<Rightarrow> Some p | None \<Rightarrow> chain_list x es)"

text \<open>The tree rooted at an element, and a forest without that tree.\<close>

fun subtree :: "node \<Rightarrow> elem \<Rightarrow> elem option"
  and subtree_list :: "node \<Rightarrow> elem list \<Rightarrow> elem option" where
  "subtree x (Elem n cs) = (if n = x then Some (Elem n cs) else subtree_list x cs)"
| "subtree_list x [] = None"
| "subtree_list x (e # es) =
     (case subtree x e of Some t \<Rightarrow> Some t | None \<Rightarrow> subtree_list x es)"

fun cut :: "node \<Rightarrow> elem \<Rightarrow> elem" and cut_list :: "node \<Rightarrow> elem list \<Rightarrow> elem list" where
  "cut x (Elem n cs) = Elem n (cut_list x cs)"
| "cut_list x [] = []"
| "cut_list x (e # es) = (if ref e = x then cut_list x es else cut x e # cut_list x es)"


subsection \<open>The host's operations on the page\<close>

text \<open>
  The class selector \<^verbatim>\<open>"." + c\<close> matches an element that has \<open>c\<close> among its classes. Names
  are compared exactly, except in a quirks-mode document, where the case of ASCII letters
  is ignored.
\<close>

definition ascii_lower :: "char \<Rightarrow> char" where
  "ascii_lower c =
     (if 65 \<le> (of_char c :: nat) \<and> (of_char c :: nat) \<le> 90 then char_of (of_char c + 32 :: nat)
      else c)"

definition same_class :: "document \<Rightarrow> string \<Rightarrow> string \<Rightarrow> bool" where
  "same_class d c k = (if quirks d then map ascii_lower k = map ascii_lower c else k = c)"

definition has_class :: "document \<Rightarrow> string \<Rightarrow> node \<Rightarrow> bool" where
  "has_class d c n = list_ex (same_class d c) (classList (attributes d n))"

text \<open>\<^verbatim>\<open>document.getElementById(i)\<close>: the first element of the page with that id, or null.\<close>

definition getElementById :: "document \<Rightarrow> string \<Rightarrow> node option" where
  "getElementById d i = find (\<lambda>n. attr_id (attributes d n) = i) (nodes_list (page d))"

text \<open>\<^verbatim>\<open>document.querySelectorAll("." + c)\<close>: the elements of the page of class \<open>c\<close>.\<close>

definition querySelectorAll_class :: "document \<Rightarrow> string \<Rightarrow> node list" where
  "querySelectorAll_class d c = filter (has_class d c) (nodes_list (page d))"

text \<open>
  \<^verbatim>\<open>e.closest("." + c)\<close>: the first element of class \<open>c\<close> on the way up from \<open>e\<close>, starting
  with \<open>e\<close> itself; null when there is none.
\<close>

definition closest_class :: "document \<Rightarrow> string \<Rightarrow> node \<Rightarrow> node option" where
  "closest_class d c e =
     (case chain_list e (page d @ detached d) of
        None \<Rightarrow> None
      | Some p \<Rightarrow> find (has_class d c) p)"

text \<open>
  \<^verbatim>\<open>e.remove()\<close>: an element with a parent is taken out of it with everything below it. An
  element of the page always has one (an element or the document itself); the root of a
  removed tree has none, and removing it does nothing.
\<close>

definition remove :: "node \<Rightarrow> document \<Rightarrow> document" where
  "remove e d =
     (case subtree_list e (page d) of
        Some t \<Rightarrow> d\<lparr>page := cut_list e (page d), detached := detached d @ [t]\<rparr>
      | None \<Rightarrow>
          if e \<in> set (map ref (detached d)) then d
          else (case subtree_list e (detached d) of
                  Some t \<Rightarrow> d\<lparr>detached := cut_list e (detached d) @ [t]\<rparr>
                | None \<Rightarrow> d))"

text \<open>\<^verbatim>\<open>list.toggle(token)\<close> on a class list: remove the token if present, add it if not.\<close>

definition toggle :: "string \<Rightarrow> string list \<Rightarrow> string list" where
  "toggle token cl = (if token \<in> set cl then removeAll token cl else cl @ [token])"

text \<open>
  Reading a property of null throws a \<^verbatim>\<open>TypeError\<close>. A reference that may be null is an
  \<open>option\<close>; the two calls the program makes on such references follow.
\<close>

definition classList_toggle :: "node option \<Rightarrow> string \<Rightarrow> document \<Rightarrow> error + document" where
  "classList_toggle r token d =
     (case r of
        None \<Rightarrow> Inl TypeError
      | Some n \<Rightarrow>
          Inr (d\<lparr>attributes := (attributes d)
                  (n := (attributes d n)\<lparr>classList := toggle token (classList (attributes d n))\<rparr>)\<rparr>))"

text \<open>
  The two click listeners of the program, as closures over the reference they captured:
  \<^verbatim>\<open>() => { sidebar.classList.toggle("open") }\<close> and
  \<^verbatim>\<open>() => { b.closest(".alert")?.remove() }\<close>.
\<close>

datatype listener = ToggleSidebar "node option" | CloseAlert node

type_synonym registry = "(node \<times> listener) list"

definition addEventListener :: "node option \<Rightarrow> listener \<Rightarrow> registry \<Rightarrow> error + registry" where
  "addEventListener target l ls =
     (case target of None \<Rightarrow> Inl TypeError | Some n \<Rightarrow> Inr (ls @ [(n, l)]))"

fun run_listener :: "listener \<Rightarrow> document \<Rightarrow> error + document" where
  "run_listener (ToggleSidebar sidebar) d = classList_toggle sidebar ''open'' d"
| "run_listener (CloseAlert b) d =
     (case closest_class d ''alert'' b of None \<Rightarrow> Inr d | Some a \<Rightarrow> Inr (remove a d))"

subsection \<open>The page-ready handler of static/js/main.js\<close>

text \<open>The \<^verbatim>\<open>forEach\<close> over the close controls: one listener on each, in document order.\<close>

fun bind_close :: "node list \<Rightarrow> registry \<Rightarrow> error + registry" where
  "bind_close [] ls = Inr ls"
| "bind_close (b # bs) ls =
     (case addEventListener (Some b) (CloseAlert b) ls of
        Inl e \<Rightarrow> Inl e
      | Inr ls' \<Rightarrow> bind_close bs ls')"

text \<open>
  The handler of \<^verbatim>\<open>DOMContentLoaded\<close>: it returns the listeners it has bound, or the error
  it threw.
\<close>

definition DOMContentLoaded_handler :: "document \<Rightarrow> error + registry" where
  "DOMContentLoaded_handler d =
     (let btn = getElementById d ''btnSidebar'';
          sidebar = getElementById d ''sidebar''
      in case (if btn \<noteq> None \<and> sidebar \<noteq> None
               then addEventListener btn (ToggleSidebar sidebar) []
               else Inr []) of
           Inl e \<Rightarrow> Inl e
         | Inr ls \<Rightarrow> bind_close (querySelectorAll_class d ''alert-close'') ls)"

subsection \<open>Clicks\<close>

text \<open>
  A click on an element is dispatched along the way up from it, computed before any
  listener runs: first the listeners bound to the element, in the order they were bound,
  then those of its parent, and so on. The run stops at the first listener that throws;
  the program's listeners never do, as shown below.
\<close>

definition listeners_at :: "registry \<Rightarrow> node \<Rightarrow> listener list" where
  "listeners_at ls n = map snd (filter (\<lambda>tl. fst tl = n) ls)"

fun run_all :: "listener list \<Rightarrow> document \<Rightarrow> error + document" where
  "run_all [] d = Inr d"
| "run_all (l # ls) d = (case run_listener l d of Inl e \<Rightarrow> Inl e | Inr d' \<Rightarrow> run_all ls d')"

definition click :: "registry \<Rightarrow> node \<Rightarrow> document \<Rightarrow> error + document" where
  "click ls target d =
     (case chain_list target (page d @ detached d) of
        None \<Rightarrow> Inr d
      | Some p \<Rightarrow> run_all (concat (map (listeners_at ls) p)) d)"

fun clicks :: "nat \<Rightarrow> registry \<Rightarrow> node \<Rightarrow> document \<Rightarrow> error + document" where
  "clicks 0 ls target d = Inr d"
| "clicks (Suc n) ls target d =
     (case click ls target d of Inl e \<Rightarrow> Inl e | Inr d' \<Rightarrow> clicks n ls target d')"

text \<open>The sidebar is open when its class list contains the token \<^verbatim>\<open>open\<close>.\<close>

definition is_open :: "document \<Rightarrow> node \<Rightarrow> bool" where
  "is_open d sidebar = (''open'' \<in> set (classList (attributes d sidebar)))"


subsection \<open>Example pages\<close>

definition plain :: attrs where
  "plain = \<lparr>attr_id = [], classList = []\<rparr>"

text \<open>
  A body (0) with the sidebar button (1), the sidebar (2) and three alerts (3, 5, 7), each
  holding its close control (4, 6, 8).
\<close>

definition example_page :: document where
  "example_page =
     \<lparr>page = [Elem 0 [Elem 1 [], Elem 2 [], Elem 3 [Elem 4 []], Elem 5 [Elem 6 []],
               Elem 7 [Elem 8 []]]],
      detached = [],
      attributes = (\<lambda>n. plain)
        (1 := \<lparr>attr_id = ''btnSidebar'', classList = []\<rparr>,
         2 := \<lparr>attr_id = ''sidebar'', classList = [''sidebar'']\<rparr>,
         3 := \<lparr>attr_id = [], classList = [''alert'']\<rparr>,
         4 := \<lparr>attr_id = [], classList = [''alert-close'']\<rparr>,
         5 := \<lparr>attr_id = [], classList = [''alert'']\<rparr>,
         6 := \<lparr>attr_id = [], classList = [''alert-close'']\<rparr>,
         7 := \<lparr>attr_id = [], classList = [''alert'']\<rparr>,
         8 := \<lparr>attr_id = [], classList = [''alert-close'']\<rparr>),
      quirks = False\<rparr>"




text \<open>
  A page without a doctype: an alert (1) and its close control (2), their classes written
  with capitals.
\<close>

definition quirks_page :: document where
  "quirks_page =
     \<lparr>page = [Elem 0 [Elem 1 [Elem 2 []]]], detached = [],
      attributes = (\<lambda>n. plain)
        (1 := \<lparr>attr_id = [], classList = [''Alert'']\<rparr>,
         2 := \<lparr>attr_id = [], classList = [''Alert-Close'']\<rparr>),
      quirks = True\<rparr>"

text \<open>A body (0) with the sidebar button (1) and one alert (2, 3), but no sidebar.\<close>

definition no_sidebar_page :: document where
  "no_sidebar_page =
     \<lparr>page = [Elem 0 [Elem 1 [], Elem 2 [Elem 3 []]]], detached = [],
      attributes = (\<lambda>n. plain)
        (1 := \<lparr>attr_id = ''btnSidebar'', classList = []\<rparr>,
         2 := \<lparr>attr_id = [], classList = [''alert'']\<rparr>,
         3 := \<lparr>attr_id = [], classList = [''alert-close'']\<rparr>),
      quirks = False\<rparr>"

section \<open>Properties of the utilities\<close>

subsection \<open>Access check\<close>

text \<open>
  C1. For every action (a string, the empty string, or an absent argument),
  \<open>checkAccess\<close> returns true, and the result does not depend on the action: nothing about
  it is verified.
\<close>

theorem checkAccess_always_true:
  "checkAccess action = True \<and> checkAccess action = checkAccess other"
  by (simp add: checkAccess_def)

subsection \<open>Delete confirmation\<close>

text \<open>
  With the empty string as message, the prompt shows the default text, not the (empty)
  message that was supplied: \<^verbatim>\<open>||\<close> replaces every falsy left operand.
\<close>

theorem confirmDelete_empty_message_counterexample:
  "dialogs (snd (confirmDelete (Str []) accepting_window)) = [default_message] \<and>
   dialogs (snd (confirmDelete (Str []) accepting_window)) \<noteq> [ToString (Str [])]"
  by (simp add: confirmDelete_def confirm_def js_or_def accepting_window_def default_message_def)

text \<open>
  C4 (amended). \<open>confirmDelete\<close> opens one prompt and returns the person's answer to it,
  changing nothing else in the window. The prompt shows exactly the message when a
  non-empty message is supplied, and the default French text when the message is absent,
  \<^verbatim>\<open>null\<close> or the empty string.
\<close>

theorem confirmDelete_prompt:
  "(s \<noteq> [] \<longrightarrow>
      confirmDelete (Str s) w = (user w s, w\<lparr>dialogs := dialogs w @ [s]\<rparr>)) \<and>
   (v = Undefined \<or> v = Null \<or> v = Str [] \<longrightarrow>
      confirmDelete v w =
        (user w default_message, w\<lparr>dialogs := dialogs w @ [default_message]\<rparr>))"
  by (auto simp: confirmDelete_def confirm_def js_or_def)

theorem confirmDelete_prompt_witness:
  "confirmDelete (Str ''Supprimer ce compte ?'') accepting_window =
     (True, accepting_window\<lparr>dialogs := [''Supprimer ce compte ?'']\<rparr>) \<and>
   confirmDelete Undefined declining_window =
     (False, declining_window\<lparr>dialogs := [default_message]\<rparr>)"
  using confirmDelete_prompt [of "''Supprimer ce compte ?''" accepting_window Undefined]
    confirmDelete_prompt [of "''x''" declining_window Undefined]
  by (simp add: accepting_window_def declining_window_def)

text \<open>
  C10. The two files define the same \<open>confirmDelete\<close> and the same \<open>checkAccess\<close>: equal
  results and equal prompts on every input.
\<close>

theorem utilities_versions_equal:
  "confirmDelete_part000 = confirmDelete \<and> checkAccess_part000 = checkAccess"
  by (auto simp: fun_eq_iff confirmDelete_part000_def confirmDelete_def
        checkAccess_part000_def checkAccess_def)

section \<open>Properties of the calendar and the parser\<close>






lemma div_bounds:
  fixes a n :: int
  assumes "0 < n"
  shows "n * (a div n) \<le> a" "a < n * (a div n) + n"
proof -
  have "a = n * (a div n) + a mod n" by simp
  moreover from assms have "0 \<le> a mod n" "a mod n < n" by simp_all
  ultimately show "n * (a div n) \<le> a" "a < n * (a div n) + n" by linarith+
qed

lemma DayFromYear_bounds:
  "1600 * DayFromYear y \<le> 584388 * y - 1151242004"
  "584388 * y - 1151246384 \<le> 1600 * DayFromYear y"
proof -
  define A B C where "A = (y - 1969) div 4" and "B = (y - 1901) div 100"
    and "C = (y - 1601) div 400"
  have "4 * A \<le> y - 1969" "y - 1969 < 4 * A + 4" "100 * B \<le> y - 1901"
    "y - 1901 < 100 * B + 100" "400 * C \<le> y - 1601" "y - 1601 < 400 * C + 400"
    unfolding A_def B_def C_def by (simp_all add: div_bounds)
  then have a: "1600 * A \<le> 400 * y - 787600" "400 * y - 788800 \<le> 1600 * A"
    and b: "1600 * B \<le> 16 * y - 30416" "16 * y - 32000 \<le> 1600 * B"
    and c: "1600 * C \<le> 4 * y - 6404" "4 * y - 8000 \<le> 1600 * C"
    by linarith+
  have "1600 * DayFromYear y = 584000 * y - 1150480000 + 1600 * A - 1600 * B + 1600 * C"
    by (simp add: DayFromYear_def A_def B_def C_def)
  with a b c show "1600 * DayFromYear y \<le> 584388 * y - 1151242004"
    "584388 * y - 1151246384 \<le> 1600 * DayFromYear y"
    by linarith+
qed

lemma YearFromDay_estimate:
  fixes d :: int
  defines "q \<equiv> (d * 400) div 146097"
  shows "DayFromYear (1970 + q - 1) \<le> d" "d < DayFromYear (1970 + q + 2)"
proof -
  have "146097 * q \<le> d * 400" "d * 400 < 146097 * q + 146097"
    unfolding q_def by (simp_all add: div_bounds)
  then have q: "584388 * q \<le> 1600 * d" "1600 * d < 584388 * q + 584388"
    by linarith+
  define lo hi where "lo = DayFromYear (1970 + q - 1)" and "hi = DayFromYear (1970 + q + 2)"
  have "1600 * lo \<le> 584388 * q - 582032"
    using DayFromYear_bounds(1) [of "1970 + q - 1"] by (simp add: lo_def)
  with q(1) show "DayFromYear (1970 + q - 1) \<le> d"
    unfolding lo_def [symmetric] by linarith
  have "584388 * q + 1166752 \<le> 1600 * hi"
    using DayFromYear_bounds(2) [of "1970 + q + 2"] by (simp add: hi_def)
  with q(2) show "d < DayFromYear (1970 + q + 2)"
    unfolding hi_def [symmetric] by linarith
qed

text \<open>
  The year computed is the one the standard defines: the largest year that starts on or
  before the day.
\<close>

lemma YearFromDay_correct:
  "DayFromYear (YearFromDay d) \<le> d \<and> d < DayFromYear (YearFromDay d + 1)"
  using YearFromDay_estimate [of d]
  by (auto simp: YearFromDay_def Let_def algebra_simps)

lemma div_step:
  fixes a n :: int
  assumes "0 < n"
  shows "(a + 1) div n = a div n + (if (a + 1) mod n = 0 then 1 else 0)"
proof -
  define q r where "q = a div n" and "r = a mod n"
  have a: "a = n * q + r" and r: "0 \<le> r" "r < n"
    using assms by (simp_all add: q_def r_def)
  show ?thesis
  proof (cases "r + 1 = n")
    case True
    then have "a + 1 = n * (q + 1)" using a by (simp add: algebra_simps)
    with assms show ?thesis by (simp add: q_def)
  next
    case False
    with r have r1: "0 \<le> r + 1" "r + 1 < n" by simp_all
    have e: "a + 1 = n * q + (r + 1)" using a by simp
    have "(n * q + (r + 1)) div n = q + (r + 1) div n" "(n * q + (r + 1)) mod n = (r + 1) mod n"
      using assms by simp_all
    then have "(a + 1) div n = q + (r + 1) div n" "(a + 1) mod n = (r + 1) mod n"
      by (simp_all only: e)
    with r1 r show ?thesis by (simp add: q_def)
  qed
qed

lemma mod_shift:
  "((y::int) - 1968) mod 4 = y mod 4" "(y - 1900) mod 100 = y mod 100"
  "(y - 1600) mod 400 = y mod 400"
proof -
  have "y - 1968 = y + (- 492) * 4" "y - 1900 = y + (- 19) * 100" "y - 1600 = y + (- 4) * 400"
    by simp_all
  then show "(y - 1968) mod 4 = y mod 4" "(y - 1900) mod 100 = y mod 100"
    "(y - 1600) mod 400 = y mod 400"
    by (simp_all only: mod_mult_self1)
qed

text \<open>A year is as long as \<open>DaysInYear\<close> says.\<close>

lemma DayFromYear_step: "DayFromYear (y + 1) = DayFromYear y + DaysInYear y"
proof -
  define i4 i100 i400 :: int where "i4 = (if y mod 4 = 0 then 1 else 0)"
    and "i100 = (if y mod 100 = 0 then 1 else 0)" and "i400 = (if y mod 400 = 0 then 1 else 0)"
  have e4: "(y + 1 - 1969) div 4 = (y - 1969) div 4 + i4"
    using div_step [of 4 "y - 1969"] mod_shift(1) [of y] by (simp add: algebra_simps i4_def)
  have e100: "(y + 1 - 1901) div 100 = (y - 1901) div 100 + i100"
    using div_step [of 100 "y - 1901"] mod_shift(2) [of y] by (simp add: algebra_simps i100_def)
  have e400: "(y + 1 - 1601) div 400 = (y - 1601) div 400 + i400"
    using div_step [of 400 "y - 1601"] mod_shift(3) [of y] by (simp add: algebra_simps i400_def)
  have "DayFromYear (y + 1) =
      365 * (y + 1 - 1970) + ((y - 1969) div 4 + i4) - ((y - 1901) div 100 + i100) +
      ((y - 1601) div 400 + i400)"
    unfolding DayFromYear_def by (simp only: e4 e100 e400)
  also have "\<dots> = DayFromYear y + (365 + i4 - i100 + i400)"
    unfolding DayFromYear_def by (simp add: algebra_simps)
  also have "365 + i4 - i100 + i400 = DaysInYear y"
  proof -
    have "4 dvd y" if "100 dvd y" using that by (rule dvd_trans [rotated]) simp
    moreover have "100 dvd y" if "400 dvd y" using that by (rule dvd_trans [rotated]) simp
    ultimately show ?thesis
      by (auto simp: DaysInYear_def i4_def i100_def i400_def mod_eq_0_iff_dvd)
  qed
  finally show ?thesis .
qed



text \<open>
  The calendar arithmetic of the host is inverse to itself: the year, month, day, hour and
  minute computed from a time value built from valid fields are those fields.
\<close>

lemma DaysInYear_ge: "365 \<le> DaysInYear y"
  by (simp add: DaysInYear_def)

lemma DayFromYear_mono: "y \<le> y' \<Longrightarrow> DayFromYear y \<le> DayFromYear y'"
proof (induction y' rule: int_ge_induct)
  case base
  show ?case by simp
next
  case (step i)
  with DayFromYear_step [of i] DaysInYear_ge [of i] show ?case by simp
qed

lemma YearFromDay_unique:
  assumes "DayFromYear y \<le> d" "d < DayFromYear (y + 1)"
  shows "YearFromDay d = y"
proof (rule ccontr)
  assume ne: "YearFromDay d \<noteq> y"
  from YearFromDay_correct [of d] have c: "DayFromYear (YearFromDay d) \<le> d"
    "d < DayFromYear (YearFromDay d + 1)" by simp_all
  show False
  proof (cases "YearFromDay d < y")
    case True
    then have "DayFromYear (YearFromDay d + 1) \<le> DayFromYear y"
      by (intro DayFromYear_mono) simp
    with c assms show False by simp
  next
    case False
    with ne have "DayFromYear (y + 1) \<le> DayFromYear (YearFromDay d)"
      by (intro DayFromYear_mono) simp
    with c assms show False by simp
  qed
qed

lemma Day_MakeDate:
  assumes "0 \<le> tm" "tm < msPerDay"
  shows "Day (MakeDate D tm) = D"
proof -
  have "(D * msPerDay + tm) div msPerDay = D + tm div msPerDay"
    by (simp add: msPerDay_def)
  with assms show ?thesis by (simp add: Day_def MakeDate_def)
qed





lemma civil_date:
  assumes m: "1 \<le> m" "m \<le> 12" and d: "1 \<le> d" "d \<le> days_in_month y m"
    and t: "Day t = MakeDay y (m - 1) (int d)"
  shows "YearFromTime t = y" and "MonthFromTime t = m - 1" and "DateFromTime t = int d"
proof -
  define l :: int where "l = (if DaysInYear y = 366 then 1 else 0)"
  define k where "k = month_start l (m - 1) + int d - 1"
  have l: "0 \<le> l" "l \<le> 1" by (simp_all add: l_def)
  have len: "DaysInYear y = 365 + l" by (simp add: l_def DaysInYear_def)
  from m have cases: "m = 1 \<or> m = 2 \<or> m = 3 \<or> m = 4 \<or> m = 5 \<or> m = 6 \<or> m = 7 \<or>
      m = 8 \<or> m = 9 \<or> m = 10 \<or> m = 11 \<or> m = 12"
    by arith
  from d have dm: "int d \<le> month_start l m - month_start l (m - 1)"
    by (simp add: days_in_month_def Let_def l_def [symmetric])
  have "0 \<le> k \<and> k < 365 + l"
    using cases l d(1) dm by (elim disjE) (simp_all add: k_def month_start_def)
  then have k: "0 \<le> k" "k < 365 + l" by simp_all
  have D: "Day t = DayFromYear y + k"
    by (simp add: t MakeDay_def k_def l_def)
  with k len DayFromYear_step [of y] show y: "YearFromTime t = y"
    by (simp add: YearFromTime_def YearFromDay_unique)
  then have leap: "InLeapYear t = l" and within: "DayWithinYear t = k"
    using D by (simp_all add: InLeapYear_def DayWithinYear_def l_def)
  show mon: "MonthFromTime t = m - 1"
    unfolding MonthFromTime_def Let_def leap within
    using cases l d(1) dm by (elim disjE) (simp_all add: k_def month_start_def)
  show "DateFromTime t = int d"
    unfolding DateFromTime_def leap within mon by (simp add: k_def)
qed


text \<open>What the parser accepts has fields in their ranges.\<close>

lemma digit_value_le: "is_digit c \<Longrightarrow> digit_value c \<le> 9"
  unfolding is_digit_def digit_value_def by arith

lemma foldl_digits_bound:
  "list_all is_digit cs \<Longrightarrow>
     foldl (\<lambda>a c. 10 * a + digit_value c) acc cs + 1 \<le> (acc + 1) * 10 ^ length cs"
proof (induction cs arbitrary: acc)
  case Nil
  then show ?case by simp
next
  case (Cons c cs)
  then have "foldl (\<lambda>a c. 10 * a + digit_value c) (10 * acc + digit_value c) cs + 1
      \<le> (10 * acc + digit_value c + 1) * 10 ^ length cs"
    by simp
  also have "\<dots> \<le> (10 * acc + 10) * 10 ^ length cs"
    using digit_value_le [of c] Cons.prems by (intro mult_le_mono1) simp
  finally show ?case by (simp add: algebra_simps)
qed

lemma read_digits_bound: "read_digits k s = Some (v, r) \<Longrightarrow> v < 10 ^ k"
  using foldl_digits_bound [of "take k s" 0]
  by (auto simp: read_digits_def split: if_splits)

lemma parse_time_ms: "parse_time s = Some ((hh, mi, ss, ms), r) \<Longrightarrow> ms \<le> 999"
  using read_digits_bound [of 3]
  by (fastforce simp: parse_time_def split: option.splits prod.splits)

lemma iso_parse_fields:
  assumes "iso_parse s = Some f"
  shows "1 \<le> iso_month f \<and> iso_month f \<le> 12 \<and> 1 \<le> iso_day f \<and>
         iso_day f \<le> days_in_month (iso_year f) (iso_month f) \<and>
         iso_hour f \<le> 24 \<and> iso_minute f \<le> 59 \<and> iso_second f \<le> 59 \<and> iso_ms f \<le> 999"
  using assms parse_time_ms
  by (auto simp: iso_parse_def split: option.splits prod.splits if_splits)

section \<open>Properties of formatDate\<close>

lemma TimeClip_zero: "TimeClip 0 = Some 0"
  by (simp add: TimeClip_def)

lemma TimeClip_Some: "TimeClip t = Some u \<Longrightarrow> u = t"
  by (simp add: TimeClip_def split: if_splits)

text \<open>The options the program passes are legal and are the option set of the model.\<close>

lemma toLocaleDateString_valid:
  "toLocaleDateString h (Some t) ''fr-FR''
     \<lparr>opt_year = Some ''numeric'', opt_month = Some ''long'', opt_day = Some ''numeric'',
      opt_hour = Some ''2-digit'', opt_minute = Some ''2-digit''\<rparr> =
   Inr (fr_long_date_with_time h (LocalTime h t))"
  by (simp add: toLocaleDateString_def valid_options_def allowed_def long_date_with_time_def)

lemma fr_long_date_with_time_nonempty: "fr_long_date_with_time h lt \<noteq> []"
  by (simp add: fr_long_date_with_time_def)

text \<open>
  C2. On empty or absent input (the empty string, \<^verbatim>\<open>undefined\<close>, \<^verbatim>\<open>null\<close>) the guarded
  \<open>formatDate\<close> returns exactly the empty string, as a normal result.
\<close>

theorem formatDate_empty_input:
  "formatDate h (Str []) = Inr [] \<and> formatDate h Undefined = Inr [] \<and>
   formatDate h Null = Inr []"
  by (simp add: formatDate_def)

text \<open>
  C3. On the empty string the version without the guard renders \<^verbatim>\<open>Invalid Date\<close> and the
  guarded version returns the empty string; the two versions agree exactly on the
  non-empty inputs (the truthy ones) and differ on every empty or absent one.
\<close>

theorem formatDate_versions_differ_on_empty:
  "formatDate_part000 h (Str []) = Inr ''Invalid Date'' \<and> formatDate h (Str []) = Inr [] \<and>
   (formatDate h v = formatDate_part000 h v) = ToBoolean v"
proof -
  have empty: "formatDate_part000 h (Str []) = Inr ''Invalid Date''"
    by (simp add: formatDate_part000_def Date_parse_def toLocaleDateString_def)
  have guarded: "formatDate h (Str []) = Inr []"
    by (simp add: formatDate_def)
  have "(formatDate h v = formatDate_part000 h v) = ToBoolean v"
  proof (cases v)
    case Undefined
    then show ?thesis
      by (simp add: formatDate_def formatDate_part000_def toLocaleDateString_def)
  next
    case Null
    then show ?thesis
      using fr_long_date_with_time_nonempty [of h "LocalTime h 0"]
      by (simp add: formatDate_def formatDate_part000_def toLocaleDateString_valid TimeClip_zero)
  next
    case (Str s)
    then show ?thesis
      using empty guarded by (cases "s = []") (simp_all add: formatDate_def formatDate_part000_def)
  qed
  with empty guarded show ?thesis by simp
qed

text \<open>
  The empty string does not parse as a date, and the guarded \<open>formatDate\<close> returns the
  empty string for it, not the placeholder.
\<close>

theorem formatDate_empty_counterexample:
  "Date_parse example_host [] = None \<and> formatDate example_host (Str []) = Inr [] \<and>
   formatDate example_host (Str []) \<noteq> Inr ''Invalid Date''"
  by (simp add: Date_parse_def formatDate_def)

text \<open>
  C5 (amended). For every non-empty date string that does not parse as a valid date,
  \<open>formatDate\<close> returns the fixed \<^verbatim>\<open>Invalid Date\<close> placeholder as a normal result, with
  no error.
\<close>

theorem formatDate_unparseable:
  "s \<noteq> [] \<Longrightarrow> Date_parse h s = None \<Longrightarrow> formatDate h (Str s) = Inr ''Invalid Date''"
  by (simp add: formatDate_def toLocaleDateString_def)

lemma Date_parse_demain: "Date_parse example_host ''demain'' = None"
  by code_simp

theorem formatDate_unparseable_witness:
  "''demain'' \<noteq> [] \<and> Date_parse example_host ''demain'' = None \<and>
   formatDate example_host (Str ''demain'') = Inr ''Invalid Date''"
  using formatDate_unparseable [of "''demain''" example_host] Date_parse_demain by simp


lemma parse_zone_offset: "parse_zone r = Some (OffsetZone off) \<Longrightarrow> \<bar>off\<bar> \<le> 1439"
  by (auto simp: parse_zone_def split: list.splits if_splits option.splits prod.splits)

lemma iso_parse_offset:
  "iso_parse s = Some f \<Longrightarrow> iso_zone f = OffsetZone off \<Longrightarrow> \<bar>off\<bar> \<le> 1439"
  using parse_zone_offset
  by (auto simp: iso_parse_def split: option.splits prod.splits if_splits)

lemma written_day_bounds:
  assumes "iso_parse s = Some f"
  shows "DayFromYear (iso_year f) \<le> MakeDay (iso_year f) (iso_month f - 1) (int (iso_day f))"
    and "MakeDay (iso_year f) (iso_month f - 1) (int (iso_day f)) < DayFromYear (iso_year f + 1)"
proof -
  define D where "D = MakeDay (iso_year f) (iso_month f - 1) (int (iso_day f))"
  note c = iso_parse_fields [OF assms]
  have "Day (MakeDate D 0) = D"
    by (rule Day_MakeDate) (simp_all add: msPerDay_def)
  with c have "YearFromTime (MakeDate D 0) = iso_year f"
    by (intro civil_date(1) [of "iso_month f" "iso_day f"]) (simp_all add: D_def)
  then have "YearFromDay D = iso_year f"
    by (simp add: YearFromTime_def \<open>Day (MakeDate D 0) = D\<close>)
  with YearFromDay_correct [of D] show "DayFromYear (iso_year f) \<le> MakeDay (iso_year f) (iso_month f - 1) (int (iso_day f))"
    "MakeDay (iso_year f) (iso_month f - 1) (int (iso_day f)) < DayFromYear (iso_year f + 1)"
    by (simp_all add: D_def)
qed

text \<open>
  Every year a \<^verbatim>\<open>Date\<close> holds in full is in range, in a host whose local time is within a
  day of UTC: the range is no restriction on the strings of everyday dates.
\<close>

lemma everyday_dates_in_range:
  assumes p: "iso_parse s = Some f"
    and y: "- 271820 \<le> iso_year f" "iso_year f \<le> 275759"
    and z: "\<bar>LocalTZA h (written_time f) False\<bar> \<le> msPerDay"
  shows "TimeClip (time_of_iso h f) = Some (time_of_iso h f)"
proof -
  define D where "D = MakeDay (iso_year f) (iso_month f - 1) (int (iso_day f))"
  define tm where "tm = MakeTime (int (iso_hour f)) (int (iso_minute f)) (int (iso_second f))
    (int (iso_ms f))"
  define sh where "sh = written_time f - time_of_iso h f"
  note c = iso_parse_fields [OF p]
  have lo: "DayFromYear (- 271820) = - 99999744" and hi: "DayFromYear 275760 = 99999744"
    by (simp_all add: DayFromYear_def)
  from y have "DayFromYear (- 271820) \<le> DayFromYear (iso_year f)"
    "DayFromYear (iso_year f + 1) \<le> DayFromYear 275760"
    by (simp_all add: DayFromYear_mono)
  with written_day_bounds [OF p] lo hi have D: "- 99999744 \<le> D" "D \<le> 99999743"
    by (simp_all add: D_def)
  from c have tm: "0 \<le> tm" "tm < 172800000"
    by (simp_all add: tm_def MakeTime_def msPerHour_def msPerMinute_def msPerSecond_def)
  have w: "written_time f = 86400000 * D + tm"
    by (simp add: written_time_def MakeDate_def D_def tm_def msPerDay_def)
  have sh: "\<bar>sh\<bar> \<le> 86400000"
  proof (cases "iso_zone f")
    case LocalZone
    with z show ?thesis by (simp add: sh_def time_of_iso_def Let_def UTC_def msPerDay_def)
  next
    case UtcZone
    then show ?thesis by (simp add: sh_def time_of_iso_def Let_def)
  next
    case (OffsetZone off)
    with iso_parse_offset [OF p OffsetZone] show ?thesis
      by (simp add: sh_def time_of_iso_def Let_def msPerMinute_def)
  qed
  have "time_of_iso h f = 86400000 * D + tm - sh"
    using w by (simp add: sh_def)
  with D tm sh have "\<bar>time_of_iso h f\<bar> \<le> 8640000000000000"
    by linarith
  then show ?thesis by (simp add: TimeClip_def)
qed








text \<open>
  The local time of the parsed instant is the written time for a string without a zone in
  a host at a fixed offset from UTC, and for a string in UTC in a host on UTC.
\<close>

lemma local_string_written:
  assumes "iso_zone f = LocalZone" "\<And>t u. LocalTZA h t u = c"
    and "TimeClip (time_of_iso h f) = Some t"
  shows "LocalTime h t = written_time f"
  using assms TimeClip_Some [OF assms(3)]
  by (simp add: LocalTime_def time_of_iso_def UTC_def)

lemma utc_string_written:
  assumes "iso_zone f = UtcZone" "\<And>t u. LocalTZA h t u = 0"
    and "TimeClip (time_of_iso h f) = Some t"
  shows "LocalTime h t = written_time f"
  using assms TimeClip_Some [OF assms(3)]
  by (simp add: LocalTime_def time_of_iso_def)

text \<open>
  The closing midnight, an expanded year, and the year before year 1, computed in the
  example host.
\<close>

lemma formatDate_midnight:
  "formatDate example_host (Str ''2024-03-05T24:00:00'') =
     Inr (''6 mars 2024'' @ datetime_sep example_host @ ''00:00'')"
  by code_simp

lemma formatDate_expanded_year:
  "formatDate example_host (Str ''+002024-03-05T14:30:00Z'') =
     Inr (''5 mars 2024'' @ datetime_sep example_host @ ''14:30'')"
  by code_simp

lemma formatDate_year_zero:
  "formatDate example_host (Str ''0000-01-01'') =
     Inr (''1 janvier 1'' @ datetime_sep example_host @ ''00:00'')"
  by code_simp

section \<open>Properties of the page\<close>

subsection \<open>Trees\<close>

lemma nodes_list_append: "nodes_list (xs @ ys) = nodes_list xs @ nodes_list ys"
  by (induction xs) simp_all

lemma nodes_hd: "nodes e = ref e # nodes_list (childNodes e)"
  by (cases e) simp


lemma chain_shape:
  "chain x e = Some p \<Longrightarrow>
     \<exists>r. p = x # r \<and> set r \<subseteq> set (nodes e) \<and> (distinct (nodes e) \<longrightarrow> x \<notin> set r)"
  "chain_list x es = Some p \<Longrightarrow>
     \<exists>r. p = x # r \<and> set r \<subseteq> set (nodes_list es) \<and> (distinct (nodes_list es) \<longrightarrow> x \<notin> set r)"
proof (induction x e and x es arbitrary: p and p rule: chain_chain_list.induct)
  case (1 x n cs)
  show ?case
  proof (cases "n = x")
    case True
    with 1 show ?thesis by auto
  next
    case False
    with "1.prems" obtain q where q: "chain_list x cs = Some q" "p = q @ [n]"
      by auto
    from "1.IH" [OF False q(1)] obtain r where
      r: "q = x # r" "set r \<subseteq> set (nodes_list cs)" "distinct (nodes_list cs) \<longrightarrow> x \<notin> set r"
      by blast
    with q False show ?thesis by auto
  qed
next
  case (2 x)
  then show ?case by simp
next
  case (3 x e es)
  show ?case
  proof (cases "chain x e")
    case None
    with "3.prems" have "chain_list x es = Some p" by simp
    from "3.IH"(2) [OF None this] show ?thesis by auto
  next
    case (Some q)
    with "3.prems" have "chain x e = Some p" by simp
    from "3.IH"(1) [OF this] show ?thesis by auto
  qed
qed

lemma chain_defined:
  "x \<in> set (nodes e) \<Longrightarrow> chain x e \<noteq> None"
  "x \<in> set (nodes_list es) \<Longrightarrow> chain_list x es \<noteq> None"
  by (induction x e and x es rule: chain_chain_list.induct) (auto split: option.splits)


lemma subtree_None:
  "x \<notin> set (nodes e) \<Longrightarrow> subtree x e = None"
  "x \<notin> set (nodes_list es) \<Longrightarrow> subtree_list x es = None"
  by (induction x e and x es rule: subtree_subtree_list.induct) (auto split: option.splits)

lemma subtree_Some:
  "subtree x e = Some t \<Longrightarrow> ref t = x \<and> set (nodes t) \<subseteq> set (nodes e)"
  "subtree_list x es = Some t \<Longrightarrow> ref t = x \<and> set (nodes t) \<subseteq> set (nodes_list es)"
  by (induction x e and x es arbitrary: t and t rule: subtree_subtree_list.induct)
    (auto split: option.splits if_splits)

lemma subtree_defined:
  "x \<in> set (nodes e) \<Longrightarrow> subtree x e \<noteq> None"
  "x \<in> set (nodes_list es) \<Longrightarrow> subtree_list x es \<noteq> None"
  by (induction x e and x es rule: subtree_subtree_list.induct) (auto split: option.splits)

lemma cut_absent:
  "x \<notin> set (nodes e) \<Longrightarrow> cut x e = e"
  "x \<notin> set (nodes_list es) \<Longrightarrow> cut_list x es = es"
  by (induction x e and x es rule: cut_cut_list.induct) (auto simp: nodes_hd)




lemma subtree_root: "ref e = x \<Longrightarrow> subtree x e = Some e"
  by (cases e) simp

lemma cut_mset:
  "distinct (nodes e) \<Longrightarrow> subtree x e = Some t \<Longrightarrow> ref e \<noteq> x \<Longrightarrow>
     mset (nodes (cut x e)) + mset (nodes t) = mset (nodes e)"
  "distinct (nodes_list es) \<Longrightarrow> subtree_list x es = Some t \<Longrightarrow>
     mset (nodes_list (cut_list x es)) + mset (nodes t) = mset (nodes_list es)"
proof (induction x e and x es arbitrary: t and t rule: cut_cut_list.induct)
  case (1 x n cs)
  then show ?case by simp
next
  case (2 x)
  then show ?case by simp
next
  case (3 x e es)
  from "3.prems" have de: "distinct (nodes e)" and des: "distinct (nodes_list es)"
    and disj: "set (nodes e) \<inter> set (nodes_list es) = {}"
    by auto
  show ?case
  proof (cases "ref e = x")
    case True
    then have "x \<in> set (nodes e)" by (simp add: nodes_hd)
    with disj have "x \<notin> set (nodes_list es)" by auto
    then have "cut_list x es = es" by (rule cut_absent)
    moreover from True "3.prems" have "t = e" by (simp add: subtree_root)
    ultimately show ?thesis using True by simp
  next
    case False
    show ?thesis
    proof (cases "subtree x e")
      case None
      with "3.prems" have st: "subtree_list x es = Some t" by simp
      from None have "x \<notin> set (nodes e)" using subtree_defined(1) by blast
      then have "cut x e = e" by (rule cut_absent)
      with "3.IH"(3) [OF False des st] False show ?thesis by simp
    next
      case (Some u)
      with "3.prems" have tu: "subtree x e = Some t" by simp
      then have "x \<in> set (nodes e)" using subtree_None(1) by fastforce
      with disj have "x \<notin> set (nodes_list es)" by auto
      then have "cut_list x es = es" by (rule cut_absent)
      with "3.IH"(2) [OF False de tu False] False show ?thesis by simp
    qed
  qed
qed






lemma remove_attributes: "attributes (remove a d) = attributes d"
  by (simp add: remove_def split: option.splits)

lemma remove_mset:
  assumes "distinct (nodes_list (page d @ detached d))"
  shows "mset (nodes_list (page (remove a d) @ detached (remove a d))) =
         mset (nodes_list (page d @ detached d))"
proof (cases "subtree_list a (page d)")
  case (Some t)
  from assms have "distinct (nodes_list (page d))" by (simp add: nodes_list_append)
  from cut_mset(2) [OF this Some] Some show ?thesis
    by (simp add: remove_def nodes_list_append)
next
  case None
  show ?thesis
  proof (cases "subtree_list a (detached d)")
    case n2: None
    with None show ?thesis by (simp add: remove_def)
  next
    case (Some t)
    from assms have "distinct (nodes_list (detached d))" by (simp add: nodes_list_append)
    from cut_mset(2) [OF this Some] Some None show ?thesis
      by (simp add: remove_def nodes_list_append)
  qed
qed

lemma bind_close_eq: "bind_close bs ls = Inr (ls @ map (\<lambda>b. (b, CloseAlert b)) bs)"
  by (induction bs arbitrary: ls) (simp_all add: addEventListener_def)

lemma handler_result:
  "DOMContentLoaded_handler d =
     Inr ((case (getElementById d ''btnSidebar'', getElementById d ''sidebar'') of
             (Some b, Some s) \<Rightarrow> [(b, ToggleSidebar (Some s))]
           | _ \<Rightarrow> []) @
          map (\<lambda>b. (b, CloseAlert b)) (querySelectorAll_class d ''alert-close''))"
  by (simp add: DOMContentLoaded_handler_def Let_def addEventListener_def bind_close_eq
      split: option.splits)

subsection \<open>The page-ready handler\<close>

text \<open>
  C9. When the sidebar button or the sidebar (or both) is missing from the page, the
  handler completes without throwing and binds no sidebar listener: the listeners it
  returns are the close listeners of the close controls, and nothing else.
\<close>

theorem handler_without_sidebar:
  assumes "getElementById d ''btnSidebar'' = None \<or> getElementById d ''sidebar'' = None"
  shows "\<exists>ls. DOMContentLoaded_handler d = Inr ls \<and>
           ls = map (\<lambda>b. (b, CloseAlert b)) (querySelectorAll_class d ''alert-close'') \<and>
           (\<forall>t r. (t, ToggleSidebar r) \<notin> set ls)"
  using assms by (auto simp: handler_result split: option.splits)

lemma no_sidebar_page_ids:
  "getElementById no_sidebar_page ''btnSidebar'' = Some 1"
  "getElementById no_sidebar_page ''sidebar'' = None"
  by (simp_all add: getElementById_def no_sidebar_page_def plain_def)

theorem handler_without_sidebar_witness:
  "getElementById no_sidebar_page ''btnSidebar'' = Some 1 \<and>
   getElementById no_sidebar_page ''sidebar'' = None \<and>
   DOMContentLoaded_handler no_sidebar_page = Inr [(3, CloseAlert 3)]"
proof -
  from handler_without_sidebar [of no_sidebar_page] no_sidebar_page_ids
  have "DOMContentLoaded_handler no_sidebar_page =
          Inr (map (\<lambda>b. (b, CloseAlert b))
                 (querySelectorAll_class no_sidebar_page ''alert-close''))"
    by simp
  moreover have "querySelectorAll_class no_sidebar_page ''alert-close'' = [3]"
    by (simp add: querySelectorAll_class_def has_class_def same_class_def no_sidebar_page_def plain_def)
  ultimately show ?thesis using no_sidebar_page_ids by simp
qed

subsection \<open>The sidebar toggle\<close>

lemma is_open_toggle:
  "classList_toggle (Some s) ''open'' d = Inr d' \<Longrightarrow>
     is_open d' s = (\<not> is_open d s) \<and> page d' = page d \<and> detached d' = detached d"
  by (auto simp: classList_toggle_def is_open_def has_class_def same_class_def toggle_def)

lemma close_listener_frame:
  assumes "distinct (nodes_list (page d @ detached d))"
  shows "\<exists>d'. run_listener (CloseAlert x) d = Inr d' \<and> attributes d' = attributes d \<and>
           mset (nodes_list (page d' @ detached d')) = mset (nodes_list (page d @ detached d))"
  using remove_mset [OF assms] by (cases "closest_class d ''alert'' x") (simp_all add: remove_attributes)

lemma run_all_close:
  assumes "\<forall>l\<in>set lsn. \<exists>x. l = CloseAlert x" "distinct (nodes_list (page d @ detached d))"
  shows "\<exists>d'. run_all lsn d = Inr d' \<and> attributes d' = attributes d \<and>
           mset (nodes_list (page d' @ detached d')) = mset (nodes_list (page d @ detached d))"
  using assms
proof (induction lsn arbitrary: d)
  case Nil
  then show ?case by simp
next
  case (Cons l lsn)
  then obtain x where l: "l = CloseAlert x" by auto
  from close_listener_frame [OF Cons.prems(2), of x] obtain d1 where
    d1: "run_listener (CloseAlert x) d = Inr d1" "attributes d1 = attributes d"
      "mset (nodes_list (page d1 @ detached d1)) = mset (nodes_list (page d @ detached d))"
    by blast
  from d1(3) Cons.prems(2) have "distinct (nodes_list (page d1 @ detached d1))"
    using mset_eq_imp_distinct_iff by blast
  with Cons.IH [of d1] Cons.prems(1) obtain d' where
    "run_all lsn d1 = Inr d'" "attributes d' = attributes d1"
    "mset (nodes_list (page d' @ detached d')) = mset (nodes_list (page d1 @ detached d1))"
    by auto
  with d1 l show ?case by simp
qed

lemma listeners_at_close:
  "\<forall>l\<in>set (listeners_at (map (\<lambda>x. (x, CloseAlert x)) qs) y). \<exists>x. l = CloseAlert x"
  by (auto simp: listeners_at_def)

lemma listeners_at_sidebar:
  "listeners_at ((b, ToggleSidebar r) # ls) y =
     (if y = b then ToggleSidebar r # listeners_at ls y else listeners_at ls y)"
  by (auto simp: listeners_at_def)

lemma click_toggles:
  assumes ls: "ls = (b, ToggleSidebar (Some s)) # map (\<lambda>x. (x, CloseAlert x)) qs"
    and dist: "distinct (nodes_list (page d @ detached d))"
    and b: "b \<in> set (nodes_list (page d @ detached d))"
  shows "\<exists>d'. click ls b d = Inr d' \<and> is_open d' s = (\<not> is_open d s) \<and>
           mset (nodes_list (page d' @ detached d')) = mset (nodes_list (page d @ detached d))"
proof -
  from b obtain p where p: "chain_list b (page d @ detached d) = Some p"
    using chain_defined(2) by fastforce
  from chain_shape(2) [OF p] dist obtain r where r: "p = b # r" "b \<notin> set r"
    by blast
  let ?cs = "map (\<lambda>x. (x, CloseAlert x)) qs"
  let ?rest = "listeners_at ?cs b @ concat (map (listeners_at ls) r)"
  have "listeners_at ls y = listeners_at ?cs y" if "y \<in> set r" for y
    using that r(2) by (auto simp: ls listeners_at_sidebar)
  then have "concat (map (listeners_at ls) r) = concat (map (listeners_at ?cs) r)"
    by (simp cong: map_cong)
  then have closes: "\<forall>l\<in>set ?rest. \<exists>x. l = CloseAlert x"
    using listeners_at_close [of qs] by auto
  have path: "concat (map (listeners_at ls) p) = ToggleSidebar (Some s) # ?rest"
    by (simp add: r(1) ls listeners_at_sidebar)
  obtain d1 where d1: "classList_toggle (Some s) ''open'' d = Inr d1"
    by (simp add: classList_toggle_def)
  from is_open_toggle [OF d1] have t: "is_open d1 s = (\<not> is_open d s)"
    and same: "page d1 = page d" "detached d1 = detached d"
    by simp_all
  from dist same have "distinct (nodes_list (page d1 @ detached d1))" by simp
  from run_all_close [OF closes this] obtain d' where
    d': "run_all ?rest d1 = Inr d'" "attributes d' = attributes d1"
      "mset (nodes_list (page d' @ detached d')) = mset (nodes_list (page d1 @ detached d1))"
    by blast
  from d'(2) t have "is_open d' s = (\<not> is_open d s)"
    by (simp add: is_open_def has_class_def same_class_def)
  with d' d1 same p path show ?thesis
    by (simp add: click_def)
qed

lemma clicks_toggle:
  assumes ls: "ls = (b, ToggleSidebar (Some s)) # map (\<lambda>x. (x, CloseAlert x)) qs"
    and dist: "distinct (nodes_list (page d @ detached d))"
    and b: "b \<in> set (nodes_list (page d @ detached d))"
  shows "\<exists>d'. clicks n ls b d = Inr d' \<and> is_open d' s = (if even n then is_open d s else \<not> is_open d s)"
  using dist b
proof (induction n arbitrary: d)
  case 0
  then show ?case by simp
next
  case (Suc n)
  from click_toggles [OF ls Suc.prems] obtain d1 where
    d1: "click ls b d = Inr d1" "is_open d1 s = (\<not> is_open d s)"
      "mset (nodes_list (page d1 @ detached d1)) = mset (nodes_list (page d @ detached d))"
    by blast
  from d1(3) Suc.prems have "distinct (nodes_list (page d1 @ detached d1))"
    and "b \<in> set (nodes_list (page d1 @ detached d1))"
    using mset_eq_imp_distinct_iff mset_eq_setD by blast+
  from Suc.IH [OF this] obtain d' where
    "clicks n ls b d1 = Inr d'" "is_open d' s = (if even n then is_open d1 s else \<not> is_open d1 s)"
    by blast
  with d1 show ?case by auto
qed

lemma getElementById_on_page:
  "getElementById d i = Some n \<Longrightarrow> n \<in> set (nodes_list (page d))"
  by (auto simp: getElementById_def find_Some_iff)

text \<open>
  C6. On a page with the sidebar button and the sidebar, after the page-ready handler has
  run, \<open>n\<close> clicks on the button all complete, and leave the sidebar open exactly when it
  was open before and \<open>n\<close> is even, or closed before and \<open>n\<close> is odd; whatever the
  initial class list of the sidebar and whatever else the page holds. (Elements are
  distinct objects: no reference occurs twice.)
\<close>

theorem sidebar_toggle_parity:
  assumes "distinct (nodes_list (page d @ detached d))"
    and "getElementById d ''btnSidebar'' = Some btn"
    and "getElementById d ''sidebar'' = Some sidebar"
    and "DOMContentLoaded_handler d = Inr ls"
  shows "\<exists>d'. clicks n ls btn d = Inr d' \<and>
           is_open d' sidebar = (if even n then is_open d sidebar else \<not> is_open d sidebar)"
proof -
  from assms(2-4) have ls:
    "ls = (btn, ToggleSidebar (Some sidebar)) #
          map (\<lambda>x. (x, CloseAlert x)) (querySelectorAll_class d ''alert-close'')"
    by (simp add: handler_result)
  from assms(2) have "btn \<in> set (nodes_list (page d @ detached d))"
    by (simp add: nodes_list_append getElementById_on_page)
  from clicks_toggle [OF ls assms(1) this] show ?thesis .
qed

lemma example_page_handler:
  "DOMContentLoaded_handler example_page =
     Inr [(1, ToggleSidebar (Some 2)), (4, CloseAlert 4), (6, CloseAlert 6), (8, CloseAlert 8)]"
  by (simp add: handler_result getElementById_def querySelectorAll_class_def has_class_def same_class_def
      example_page_def plain_def)

theorem sidebar_toggle_parity_witness:
  "distinct (nodes_list (page example_page @ detached example_page)) \<and>
   getElementById example_page ''btnSidebar'' = Some 1 \<and>
   getElementById example_page ''sidebar'' = Some 2 \<and>
   \<not> is_open example_page 2 \<and>
   (\<exists>d'. clicks 3
           [(1, ToggleSidebar (Some 2)), (4, CloseAlert 4), (6, CloseAlert 6), (8, CloseAlert 8)]
           1 example_page = Inr d' \<and> is_open d' 2) \<and>
   (\<exists>d'. clicks 4
           [(1, ToggleSidebar (Some 2)), (4, CloseAlert 4), (6, CloseAlert 6), (8, CloseAlert 8)]
           1 example_page = Inr d' \<and> \<not> is_open d' 2)"
proof -
  have d: "distinct (nodes_list (page example_page @ detached example_page))"
    by (simp add: example_page_def)
  have b: "getElementById example_page ''btnSidebar'' = Some 1"
    and s: "getElementById example_page ''sidebar'' = Some 2"
    by (simp_all add: getElementById_def example_page_def plain_def)
  have o: "\<not> is_open example_page 2"
    by (simp add: is_open_def has_class_def same_class_def example_page_def)
  from sidebar_toggle_parity [OF d b s example_page_handler, of 3]
    sidebar_toggle_parity [OF d b s example_page_handler, of 4] d b s o
  show ?thesis by simp
qed

subsection \<open>Closing an alert\<close>













text \<open>
  In a quirks-mode page the classes match whatever their case: the control is bound and
  its click removes the alert.
\<close>

lemma quirks_page_close:
  "DOMContentLoaded_handler quirks_page = Inr [(2, CloseAlert 2)]"
  "map_sum id page (click [(2, CloseAlert 2)] 2 quirks_page) = Inr [Elem 0 []]"
  by code_simp+

end
